theory Spec2Isabelle
  imports Complex_Main
begin

section \<open>Window functions (detail/math/window\_functions.hpp)\<close>

text \<open>
  The template type \<open>T\<close> is a floating-point type; its finite values are read as real
  numbers, \<open>std::cos\<close> as \<^const>\<open>cos\<close>, \<open>std::pow(x, n)\<close> as \<open>x ^ n\<close>,
  \<open>pi<T>()\<close> as \<^const>\<open>pi\<close> and \<open>two_pi<T>()\<close> as \<open>2 * pi\<close>. The helper
  \<open>sinc\<close> of \<open>detail/math.hpp\<close> is not part of the sources at hand and is a
  parameter of \<open>lanczos\<close>.
\<close>

datatype Function =
  kBlackman | kBlackmanHarris | kFlatTop | kHamming | kLanczos | kNuttall | kParzen | kParzenSWOT

definition hamming :: "real \<Rightarrow> real \<Rightarrow> real" where
  "hamming d r =
     (if d \<le> r then 0.53836 - 0.46164 * cos (pi * (d + r) / r) else 0)"

definition blackman :: "real \<Rightarrow> real \<Rightarrow> real" where
  "blackman d r =
     (if d \<le> r then
        (let ratio = (d + r) / r in
           (7938 / 18608) - (9240 / 18608) * cos (pi * ratio)
             + (1430 / 18608) * cos (2 * pi * ratio))
      else 0)"

definition flat_top :: "real \<Rightarrow> real \<Rightarrow> real" where
  "flat_top d r =
     (if d \<le> r then
        (let ratio = (d + r) / r in
           0.21557895 - 0.41663158 * cos (pi * ratio)
             + 0.277263158 * cos (2 * pi * ratio)
             - 0.083578947 * cos (3 * pi * ratio)
             + 0.006947368 * cos (4 * pi * ratio))
      else 0)"

definition nuttall :: "real \<Rightarrow> real \<Rightarrow> real" where
  "nuttall d r =
     (if d \<le> r then
        (let ratio = (d + r) / r in
           0.3635819 - 0.4891775 * cos (pi * ratio) + 0.1365995 * cos (2 * pi * ratio))
      else 0)"

definition blackman_harris :: "real \<Rightarrow> real \<Rightarrow> real" where
  "blackman_harris d r =
     (if d \<le> r then
        (let ratio = (d + r) / r in
           0.35875 - 0.48829 * cos (pi * ratio)
             + 0.14128 * cos (2 * pi * ratio)
             - 0.01168 * cos (3 * pi * ratio))
      else 0)"

definition lanczos :: "(real \<Rightarrow> real) \<Rightarrow> real \<Rightarrow> real \<Rightarrow> real" where
  "lanczos sinc d r = (if d \<le> r then sinc (2 * (d + r) / (2 * r) - 1) else 0)"

definition parzen :: "real \<Rightarrow> real \<Rightarrow> real" where
  "parzen d r =
     (let ratio = d / r; l = 2 * r in
        if d \<le> l / 4 then 1 - 6 * ratio ^ 2 * (1 - ratio)
        else if l / 2 \<le> r \<or> d > l / 4 then 2 * (1 - ratio) ^ 3
        else 0)"

definition parzen_swot :: "real \<Rightarrow> real \<Rightarrow> real" where
  "parzen_swot d r =
     (let l = 2 * r; ratio = (2 * d) / l in
        if d \<le> l / 4 then 1 - 6 * ratio ^ 2 + 6 * ratio ^ 3
        else if d \<le> l / 2 \<or> d > l / 4 then 2 * (1 - ratio) ^ 3
        else 0)"

text \<open>
  The constructor of \<open>WindowFunction\<close> selects the function from the tag and
  \<open>operator()\<close> applies it. The tag is a closed datatype here, so the
  \<open>default:\<close> branch of the switch (an unknown tag) has no counterpart.
\<close>

fun WindowFunction :: "(real \<Rightarrow> real) \<Rightarrow> Function \<Rightarrow> real \<Rightarrow> real \<Rightarrow> real" where
  "WindowFunction sinc kBlackman = blackman"
| "WindowFunction sinc kBlackmanHarris = blackman_harris"
| "WindowFunction sinc kFlatTop = flat_top"
| "WindowFunction sinc kLanczos = lanczos sinc"
| "WindowFunction sinc kHamming = hamming"
| "WindowFunction sinc kNuttall = nuttall"
| "WindowFunction sinc kParzen = parzen"
| "WindowFunction sinc kParzenSWOT = parzen_swot"

section \<open>Binning2D (binning.hpp): values, arrays and collaborators\<close>

text \<open>
  A value of the template type \<open>T\<close> is either a NaN or a number; the numbers are read as
  reals, so rounding, overflow and the infinities are outside this model. The coordinates
  \<open>x\<close> and \<open>y\<close> of a sample are taken to be numbers (the code tests only \<open>z\<close> with
  \<open>std::isnan\<close>).
\<close>

datatype fp = NaN | Num real

fun isnan :: "fp \<Rightarrow> bool" where
  "isnan NaN = True"
| "isnan (Num v) = False"

text \<open>
  A \<open>pybind11::array_t\<close>: its shape and its elements in index order. \<open>array1\<close> builds
  the one-dimensional array of a list.
\<close>

record 'a array_t =
  shape :: "nat list"
  data :: "'a list"

definition ndim :: "'a array_t \<Rightarrow> nat" where
  "ndim a = length (shape a)"

definition array_size :: "'a array_t \<Rightarrow> nat" where
  "array_size a = length (data a)"

definition array1 :: "'a list \<Rightarrow> 'a array_t" where
  "array1 xs = \<lparr>shape = [length xs], data = xs\<rparr>"

datatype error = ShapeMismatch | IndexOutOfRange

text \<open>
  The outcome of a call on a mutable object: the exception it raised, if any, and the state
  the object is left in.
\<close>

type_synonym 'a outcome = "error option \<times> 'a"

definition and_then :: "'a outcome \<Rightarrow> ('a \<Rightarrow> 'a outcome) \<Rightarrow> 'a outcome" where
  "and_then r f = (case r of (Some e, s) \<Rightarrow> (Some e, s) | (None, s) \<Rightarrow> f s)"

text \<open>
  Modelled from the spec: \<open>detail::check_array_ndim\<close> and \<open>detail::check_ndarray_shape\<close>
  (\<open>detail/broadcast.hpp\<close>) are missing from the sources. The spec requires \<open>xs\<close>,
  \<open>ys\<close>, \<open>zs\<close> to be equal-length 1-D sequences, else the call fails with a
  shape-mismatch error: the first check compares each array's rank with the rank asked
  for, the second compares the shapes.
\<close>

definition check_array_ndim ::
  "'a array_t \<Rightarrow> nat \<Rightarrow> 'b array_t \<Rightarrow> nat \<Rightarrow> 'c array_t \<Rightarrow> nat \<Rightarrow> error option" where
  "check_array_ndim x nx y ny z nz =
     (if ndim x = nx \<and> ndim y = ny \<and> ndim z = nz then None else Some ShapeMismatch)"

definition check_ndarray_shape ::
  "'a array_t \<Rightarrow> 'b array_t \<Rightarrow> 'c array_t \<Rightarrow> error option" where
  "check_ndarray_shape x y z =
     (if shape x = shape y \<and> shape y = shape z then None else Some ShapeMismatch)"

text \<open>
  The class \<open>Axis\<close> (\<open>pyinterp/axis.hpp\<close>) is not among the sources. An axis is given
  by the members \<open>Binning2D\<close> calls: \<open>size()\<close>, \<open>operator()(index)\<close>,
  \<open>find_index(coordinate, bounded)\<close> (\<open>-1\<close> when no index is found),
  \<open>find_indexes(coordinate)\<close> and \<open>is_angle()\<close>.
\<close>

record axis =
  axis_size :: nat
  coordinate_value :: "int \<Rightarrow> real"
  find_index :: "real \<Rightarrow> bool \<Rightarrow> int"
  find_indexes :: "real \<Rightarrow> (int \<times> int) option"
  is_angle :: bool

text \<open>
  The contract of an axis that indexing the accumulator matrix relies on: an index it returns
  is \<open>-1\<close> (only from \<open>find_index\<close>) or lies in \<open>[0, size)\<close>.
\<close>

definition index_in_axis :: "axis \<Rightarrow> int \<Rightarrow> bool" where
  "index_in_axis a i = (0 \<le> i \<and> i < int (axis_size a))"

definition axis_contract :: "axis \<Rightarrow> bool" where
  "axis_contract a =
     ((\<forall>v bounded. find_index a v bounded = - 1 \<or> index_in_axis a (find_index a v bounded))
      \<and> (\<forall>v i0 i1. find_indexes a v = Some (i0, i1) \<longrightarrow>
            index_in_axis a i0 \<and> index_in_axis a i1))"

text \<open>\<open>geodetic::System\<close>, as far as \<open>push\<close> reads it.\<close>

record system =
  semi_major_axis :: real
  semi_minor_axis :: real

text \<open>
  The two area strategies \<open>push\<close> constructs:
  \<open>boost::geometry::strategy::area::cartesian\<close> and \<open>geographic\<close> on the spheroid of
  the two semi-axes.
\<close>

datatype strategy = cartesian | geographic real real

type_synonym point = "real \<times> real"

type_synonym weights = "real \<times> real \<times> real \<times> real"

text \<open>
  Modelled from the spec: \<open>detail::math::normalize_angle\<close> (\<open>detail/math.hpp\<close>) is
  missing from the sources. The spec has it rewrap the value into the representative
  interval at the reference for the given period: the result is the representative of
  \<open>x\<close> modulo \<open>circle\<close> in \<open>[min, min + circle)\<close>.
\<close>

definition normalize_angle :: "real \<Rightarrow> real \<Rightarrow> real \<Rightarrow> real" where
  "normalize_angle x min_value circle =
     x - circle * of_int \<lfloor>(x - min_value) / circle\<rfloor>"

section \<open>Binning2D: accumulators and the grid\<close>

text \<open>
  Modelled from the spec: the StatAccumulator, in the code the type \<open>Accumulators\<close>, a
  \<open>boost::accumulators::accumulator_set\<close> whose implementation is not part of the
  sources. An accumulator is represented by the samples it has absorbed, in the order of
  insertion; its statistics are functions of that sequence. The default-constructed
  accumulator is the empty sequence. The extractors given here are the ones the theorems
  below read: the count, the sum, the mean (the sum over the count) and the lazy variance
  (the mean of the squares minus the square of the mean); dividing by a zero count gives
  NaN.
\<close>

type_synonym Accumulators = "real list"

definition accumulators_count :: "Accumulators \<Rightarrow> nat" where
  "accumulators_count a = length a"

definition accumulators_sum :: "Accumulators \<Rightarrow> real" where
  "accumulators_sum a = sum_list a"

definition accumulators_mean :: "Accumulators \<Rightarrow> fp" where
  "accumulators_mean a =
     (if accumulators_count a = 0 then NaN
      else Num (accumulators_sum a / real (accumulators_count a)))"

definition accumulators_variance :: "Accumulators \<Rightarrow> fp" where
  "accumulators_variance a =
     (if accumulators_count a = 0 then NaN
      else Num (sum_list (map (\<lambda>v. v ^ 2) a) / real (accumulators_count a)
                - (accumulators_sum a / real (accumulators_count a)) ^ 2))"

text \<open>
  The \<open>Eigen::Matrix\<close> of accumulators. \<open>Matrix r c\<close> is the constructor call
  \<open>Matrix(rows, cols)\<close>, which default-constructs every coefficient.
\<close>

record acc_matrix =
  rows :: nat
  cols :: nat
  coeff :: "nat \<times> nat \<Rightarrow> Accumulators"

definition Matrix :: "nat \<Rightarrow> nat \<Rightarrow> acc_matrix" where
  "Matrix r c = \<lparr>rows = r, cols = c, coeff = (\<lambda>cell. [])\<rparr>"

text \<open>
  \<open>acc_(ix, iy)(value)\<close>: the accumulator of the cell absorbs the value. An index outside
  the matrix is an assertion failure of Eigen (undefined behaviour in a release build); the
  model stops there with \<open>IndexOutOfRange\<close>.
\<close>

definition absorb :: "nat \<times> nat \<Rightarrow> real \<Rightarrow> acc_matrix \<Rightarrow> acc_matrix" where
  "absorb cell v m = m\<lparr>coeff := (coeff m)(cell := coeff m cell @ [v])\<rparr>"

definition accumulate :: "int \<Rightarrow> int \<Rightarrow> real \<Rightarrow> acc_matrix \<Rightarrow> acc_matrix outcome" where
  "accumulate ix iy v m =
     (if 0 \<le> ix \<and> ix < int (rows m) \<and> 0 \<le> iy \<and> iy < int (cols m)
      then (None, absorb (nat ix, nat iy) v m)
      else (Some IndexOutOfRange, m))"

text \<open>
  The object: the members \<open>x_\<close>, \<open>y_\<close>, \<open>acc_\<close> and \<open>wgs_\<close>, and its constructor.
\<close>

record binning2d =
  x_axis :: axis
  y_axis :: axis
  acc :: acc_matrix
  wgs :: "system option"

definition Binning2D :: "axis \<Rightarrow> axis \<Rightarrow> system option \<Rightarrow> binning2d" where
  "Binning2D x y w =
     \<lparr>x_axis = x, y_axis = y, acc = Matrix (axis_size x) (axis_size y), wgs = w\<rparr>"

definition clear :: "binning2d \<Rightarrow> binning2d" where
  "clear b = b\<lparr>acc := Matrix (axis_size (x_axis b)) (axis_size (y_axis b))\<rparr>"

text \<open>
  \<open>calculate_statistics\<close>: the dense array of one statistic, row \<open>ix\<close>, column \<open>iy\<close>.
\<close>

definition calculate_statistics :: "(Accumulators \<Rightarrow> 'r) \<Rightarrow> binning2d \<Rightarrow> 'r list list" where
  "calculate_statistics func b =
     map (\<lambda>ix. map (\<lambda>iy. func (coeff (acc b) (ix, iy))) [0..<cols (acc b)])
       [0..<rows (acc b)]"

definition count :: "binning2d \<Rightarrow> nat list list" where
  "count b = calculate_statistics accumulators_count b"

definition sum_stat :: "binning2d \<Rightarrow> real list list" where
  "sum_stat b = calculate_statistics accumulators_sum b"

definition mean :: "binning2d \<Rightarrow> fp list list" where
  "mean b = calculate_statistics accumulators_mean b"

definition variance :: "binning2d \<Rightarrow> fp list list" where
  "variance b = calculate_statistics accumulators_variance b"

section \<open>Binning2D: push\<close>

type_synonym sample = "real \<times> real \<times> fp"

text \<open>The triples \<open>(_x(idx), _y(idx), _z(idx))\<close> for \<open>idx\<close> from 0 to \<open>x.size()\<close>.\<close>

definition samples :: "real array_t \<Rightarrow> real array_t \<Rightarrow> fp array_t \<Rightarrow> sample list" where
  "samples x y z = map (\<lambda>idx. (data x ! idx, data y ! idx, data z ! idx)) [0..<array_size x]"

text \<open>The loop over the samples; it stops where the body fails.\<close>

fun for_each_sample ::
  "(sample \<Rightarrow> acc_matrix \<Rightarrow> acc_matrix outcome) \<Rightarrow> sample list \<Rightarrow> acc_matrix \<Rightarrow> acc_matrix outcome"
where
  "for_each_sample body [] m = (None, m)"
| "for_each_sample body (s # ss) m = and_then (body s m) (for_each_sample body ss)"

text \<open>The body of the loop of \<open>push_nearest\<close>.\<close>

definition push_nearest_sample :: "axis \<Rightarrow> axis \<Rightarrow> sample \<Rightarrow> acc_matrix \<Rightarrow> acc_matrix outcome" where
  "push_nearest_sample xa ya s m =
     (case s of (x, y, value) \<Rightarrow>
        (case value of
           NaN \<Rightarrow> (None, m)
         | Num v \<Rightarrow>
             (let ix = find_index xa x True; iy = find_index ya y True in
                if ix \<noteq> - 1 \<and> iy \<noteq> - 1 then accumulate ix iy v m else (None, m))))"

definition push_nearest ::
  "real array_t \<Rightarrow> real array_t \<Rightarrow> fp array_t \<Rightarrow> binning2d \<Rightarrow> binning2d outcome" where
  "push_nearest x y z b =
     (case for_each_sample (push_nearest_sample (x_axis b) (y_axis b)) (samples x y z) (acc b)
      of (e, m) \<Rightarrow> (e, b\<lparr>acc := m\<rparr>))"

text \<open>
  The weights of a sample in the cell \<open>(ix0, ix1) \<times> (iy0, iy1)\<close>, the call of
  \<open>detail::math::binning\<close> in \<open>push_linear\<close>. That function
  (\<open>detail/math/binning.hpp\<close>) is not among the sources and is the parameter
  \<open>binning\<close>, already applied to its strategy.
\<close>

definition sample_weights ::
  "(point \<Rightarrow> point \<Rightarrow> point \<Rightarrow> weights) \<Rightarrow> axis \<Rightarrow> axis \<Rightarrow> real \<Rightarrow> real
     \<Rightarrow> int \<times> int \<Rightarrow> int \<times> int \<Rightarrow> weights" where
  "sample_weights binning xa ya x y x_indexes y_indexes =
     (case (x_indexes, y_indexes) of ((ix0, ix1), (iy0, iy1)) \<Rightarrow>
        (let x0 = coordinate_value xa ix0 in
           binning (if is_angle xa then normalize_angle x x0 360 else x, y)
             (x0, coordinate_value ya iy0)
             (coordinate_value xa ix1, coordinate_value ya iy1)))"

text \<open>The body of the loop of \<open>push_linear\<close>.\<close>

definition push_linear_sample ::
  "(point \<Rightarrow> point \<Rightarrow> point \<Rightarrow> weights) \<Rightarrow> axis \<Rightarrow> axis \<Rightarrow> sample \<Rightarrow> acc_matrix
     \<Rightarrow> acc_matrix outcome" where
  "push_linear_sample binning xa ya s m =
     (case s of (x, y, value) \<Rightarrow>
        (case value of
           NaN \<Rightarrow> (None, m)
         | Num v \<Rightarrow>
             (case (find_indexes xa x, find_indexes ya y) of
                (Some (ix0, ix1), Some (iy0, iy1)) \<Rightarrow>
                  (case sample_weights binning xa ya x y (ix0, ix1) (iy0, iy1) of
                     (w0, w1, w2, w3) \<Rightarrow>
                       and_then (accumulate ix0 iy0 (v * w0) m) (\<lambda>m.
                       and_then (accumulate ix0 iy1 (v * w1) m) (\<lambda>m.
                       and_then (accumulate ix1 iy0 (v * w2) m) (\<lambda>m.
                       accumulate ix1 iy1 (v * w3) m))))
              | _ \<Rightarrow> (None, m))))"

definition push_linear ::
  "(point \<Rightarrow> point \<Rightarrow> point \<Rightarrow> weights) \<Rightarrow> real array_t \<Rightarrow> real array_t \<Rightarrow> fp array_t
     \<Rightarrow> binning2d \<Rightarrow> binning2d outcome" where
  "push_linear binning x y z b =
     (case for_each_sample (push_linear_sample binning (x_axis b) (y_axis b)) (samples x y z)
             (acc b)
      of (e, m) \<Rightarrow> (e, b\<lparr>acc := m\<rparr>))"

text \<open>
  \<open>push\<close>: the two checks, then the loop the mode and the coordinate system select. The
  parameter \<open>binning\<close> is \<open>detail::math::binning\<close>, a function of the strategy.
\<close>

definition push ::
  "(strategy \<Rightarrow> point \<Rightarrow> point \<Rightarrow> point \<Rightarrow> weights) \<Rightarrow> real array_t \<Rightarrow> real array_t
     \<Rightarrow> fp array_t \<Rightarrow> bool \<Rightarrow> binning2d \<Rightarrow> binning2d outcome" where
  "push binning x y z simple b =
     (case check_array_ndim x 1 y 1 z 1 of
        Some e \<Rightarrow> (Some e, b)
      | None \<Rightarrow>
          (case check_ndarray_shape x y z of
             Some e \<Rightarrow> (Some e, b)
           | None \<Rightarrow>
               if simple then push_nearest x y z b
               else (case wgs b of
                       None \<Rightarrow> push_linear (binning cartesian) x y z b
                     | Some w \<Rightarrow>
                         push_linear
                           (binning (geographic (semi_major_axis w) (semi_minor_axis w)))
                           x y z b)))"

section \<open>Collaborators modelled from the spec\<close>

text \<open>
  Modelled from the spec: the class \<open>Axis\<close> is missing from the sources. The spec
  describes an axis as an ordered sequence of bin edges with index resolution:
  \<open>find_index(value, clamp)\<close> is the nearest-bin resolution, and when \<open>clamp\<close> is
  set, out-of-range values snap to the nearest valid edge instead of failing;
  \<open>find_indexes(value)\<close> returns the bracketing pair of indices whose edges contain the
  value, or none if it is outside the domain; an angular axis normalizes a value into its
  period of 360 first. \<open>edges_axis edges angle\<close> is that axis over an ascending list
  of edges.
\<close>

fun nearest_edge :: "real \<Rightarrow> real list \<Rightarrow> int" where
  "nearest_edge v (a # b # es) =
     (if \<bar>v - a\<bar> < \<bar>v - b\<bar> then 0 else 1 + nearest_edge v (b # es))"
| "nearest_edge v es = 0"

fun bracketing :: "real \<Rightarrow> real list \<Rightarrow> (int \<times> int) option" where
  "bracketing v (a # b # es) =
     (if a \<le> v \<and> v \<le> b then Some (0, 1)
      else (case bracketing v (b # es) of
              None \<Rightarrow> None
            | Some (i0, i1) \<Rightarrow> Some (i0 + 1, i1 + 1)))"
| "bracketing v es = None"

definition axis_find_index :: "real list \<Rightarrow> bool \<Rightarrow> real \<Rightarrow> bool \<Rightarrow> int" where
  "axis_find_index edges angle v clamp =
     (if edges = [] then - 1
      else
        (let c = (if angle then normalize_angle v (hd edges) 360 else v) in
           if c < hd edges then (if clamp then 0 else - 1)
           else if last edges < c then (if clamp then int (length edges) - 1 else - 1)
           else nearest_edge c edges))"

definition axis_find_indexes :: "real list \<Rightarrow> bool \<Rightarrow> real \<Rightarrow> (int \<times> int) option" where
  "axis_find_indexes edges angle v =
     (if edges = [] then None
      else bracketing (if angle then normalize_angle v (hd edges) 360 else v) edges)"

definition edges_axis :: "real list \<Rightarrow> bool \<Rightarrow> axis" where
  "edges_axis edges angle =
     \<lparr>axis_size = length edges,
      coordinate_value = (\<lambda>i. edges ! nat i),
      find_index = axis_find_index edges angle,
      find_indexes = axis_find_indexes edges angle,
      is_angle = angle\<rparr>"

text \<open>
  Modelled from the spec: \<open>detail::math::binning\<close> is missing from the sources. The
  spec's planar AreaWeightStrategy gives the four weights \<open>w00, w01, w10, w11\<close> of the
  corners \<open>(x0,y0)\<close>, \<open>(x0,y1)\<close>, \<open>(x1,y0)\<close>, \<open>(x1,y1)\<close> from the partition of the
  cell into the four rectangles the point \<open>P\<close> cuts: a corner's weight is the area of the
  rectangle opposite to it over the area of the cell. The ellipsoidal variant computes the
  areas with the geographic strategy of Boost.Geometry and stays a parameter
  (\<open>geo\<close> in \<open>binning_with\<close>).
\<close>

definition binning_cartesian :: "point \<Rightarrow> point \<Rightarrow> point \<Rightarrow> weights" where
  "binning_cartesian p p0 p1 =
     (case (p, p0, p1) of ((x, y), (x0, y0), (x1, y1)) \<Rightarrow>
        (let total = (x1 - x0) * (y1 - y0) in
           ((x1 - x) * (y1 - y) / total,
            (x1 - x) * (y - y0) / total,
            (x - x0) * (y1 - y) / total,
            (x - x0) * (y - y0) / total)))"

definition binning_with ::
  "(real \<Rightarrow> real \<Rightarrow> point \<Rightarrow> point \<Rightarrow> point \<Rightarrow> weights) \<Rightarrow> strategy
     \<Rightarrow> point \<Rightarrow> point \<Rightarrow> point \<Rightarrow> weights" where
  "binning_with geo s = (case s of cartesian \<Rightarrow> binning_cartesian | geographic a b \<Rightarrow> geo a b)"

section \<open>Notions the properties are stated with\<close>

text \<open>The sum of \<open>count()\<close> over all cells.\<close>

definition total_count :: "binning2d \<Rightarrow> nat" where
  "total_count b = sum_list (map sum_list (count b))"

text \<open>
  The samples \<open>push_nearest\<close> resolves: \<open>z\<close> is a number and both \<open>find_index\<close> calls,
  made with \<open>bounded = true\<close>, return an index.
\<close>

definition resolved_nearest :: "axis \<Rightarrow> axis \<Rightarrow> sample \<Rightarrow> bool" where
  "resolved_nearest xa ya s =
     (case s of (x, y, z) \<Rightarrow>
        \<not> isnan z \<and> find_index xa x True \<noteq> - 1 \<and> find_index ya y True \<noteq> - 1)"

text \<open>
  The samples inside both axes' domains with a number for \<open>z\<close>: a coordinate is inside the
  domain of an axis when the lookup without clamping finds an index.
\<close>

definition inside_domains :: "axis \<Rightarrow> axis \<Rightarrow> sample \<Rightarrow> bool" where
  "inside_domains xa ya s =
     (case s of (x, y, z) \<Rightarrow>
        \<not> isnan z \<and> find_index xa x False \<noteq> - 1 \<and> find_index ya y False \<noteq> - 1)"

text \<open>The invariant of the class: the matrix has one row per x index, one column per y index.\<close>

definition shaped :: "binning2d \<Rightarrow> bool" where
  "shaped b = (rows (acc b) = axis_size (x_axis b) \<and> cols (acc b) = axis_size (y_axis b))"

text \<open>The grid of the concrete scenarios: edges \<open>[0, 1, 2]\<close> on both axes, planar.\<close>

definition scenario_axis :: axis where
  "scenario_axis = edges_axis [0, 1, 2] False"

definition scenario_grid :: binning2d where
  "scenario_grid = Binning2D scenario_axis scenario_axis None"

text \<open>Successive \<open>push\<close> calls, one per batch; an exception ends the sequence.\<close>

fun push_batches ::
  "(strategy \<Rightarrow> point \<Rightarrow> point \<Rightarrow> point \<Rightarrow> weights) \<Rightarrow> (real list \<times> real list \<times> fp list) list
     \<Rightarrow> bool \<Rightarrow> binning2d \<Rightarrow> binning2d outcome" where
  "push_batches binning [] simple b = (None, b)"
| "push_batches binning (batch # batches) simple b =
     (case batch of (xs, ys, zs) \<Rightarrow>
        and_then (push binning (array1 xs) (array1 ys) (array1 zs) simple b)
          (push_batches binning batches simple))"

text \<open>
  A sequence of operations on one object; after an exception of \<open>push\<close> the caller goes
  on with the object as the call left it.
\<close>

datatype operation = Push "real array_t" "real array_t" "fp array_t" bool | Clear

fun apply_operation ::
  "(strategy \<Rightarrow> point \<Rightarrow> point \<Rightarrow> point \<Rightarrow> weights) \<Rightarrow> binning2d \<Rightarrow> operation \<Rightarrow> binning2d" where
  "apply_operation binning b (Push x y z simple) = snd (push binning x y z simple b)"
| "apply_operation binning b Clear = clear b"

definition run ::
  "(strategy \<Rightarrow> point \<Rightarrow> point \<Rightarrow> point \<Rightarrow> weights) \<Rightarrow> operation list \<Rightarrow> binning2d \<Rightarrow> binning2d" where
  "run binning ops b = foldl (apply_operation binning) b ops"

text \<open>The number of values the cells of a matrix have absorbed.\<close>

definition matrix_count :: "acc_matrix \<Rightarrow> nat" where
  "matrix_count m = (\<Sum>cell \<in> {..<rows m} \<times> {..<cols m}. length (coeff m cell))"

text \<open>
  The loop body \<open>push\<close> selects for an object: it reads the axes and the coordinate
  system, never the accumulators.
\<close>

definition push_body ::
  "(strategy \<Rightarrow> point \<Rightarrow> point \<Rightarrow> point \<Rightarrow> weights) \<Rightarrow> bool \<Rightarrow> binning2d
     \<Rightarrow> sample \<Rightarrow> acc_matrix \<Rightarrow> acc_matrix outcome" where
  "push_body binning simple b =
     (if simple then push_nearest_sample (x_axis b) (y_axis b)
      else (case wgs b of
              None \<Rightarrow> push_linear_sample (binning cartesian) (x_axis b) (y_axis b)
            | Some w \<Rightarrow>
                push_linear_sample (binning (geographic (semi_major_axis w) (semi_minor_axis w)))
                  (x_axis b) (y_axis b)))"

text \<open>
  A batch is three lists; it is well shaped when they have one length. \<open>whole\<close> is the
  dataset a list of consecutive batches splits.
\<close>

definition well_shaped :: "real list \<times> real list \<times> fp list \<Rightarrow> bool" where
  "well_shaped batch =
     (case batch of (xs, ys, zs) \<Rightarrow> length xs = length ys \<and> length ys = length zs)"

definition whole ::
  "(real list \<times> real list \<times> fp list) list \<Rightarrow> real list \<times> real list \<times> fp list" where
  "whole batches =
     (concat (map fst batches), concat (map (fst \<circ> snd) batches),
      concat (map (snd \<circ> snd) batches))"

text \<open>
  The weights function of the planar scenarios: no ellipsoid is given there, so the
  ellipsoidal variant is never consulted and is set to the planar one.
\<close>

definition scenario_binning :: "strategy \<Rightarrow> point \<Rightarrow> point \<Rightarrow> point \<Rightarrow> weights" where
  "scenario_binning = binning_with (\<lambda>a b. binning_cartesian)"

text \<open>An angular axis with an edge at the wrap boundary.\<close>

definition wrap_axis :: axis where
  "wrap_axis = edges_axis [0, 90, 180, 270, 360] True"


section \<open>Properties of the window functions\<close>

lemma parzen_outside: "0 < r \<Longrightarrow> r < d \<Longrightarrow> parzen d r = 2 * (1 - d / r) ^ 3"
  by (simp add: parzen_def Let_def)

lemma parzen_swot_outside: "0 < r \<Longrightarrow> r < d \<Longrightarrow> parzen_swot d r = 2 * (1 - d / r) ^ 3"
  by (simp add: parzen_swot_def Let_def)

lemma cube_negative: "0 < r \<Longrightarrow> r < d \<Longrightarrow> 2 * (1 - d / r) ^ 3 < (0::real)"
proof -
  assume r: "0 < r" and d: "r < d"
  then have "1 < d / r" by simp
  then have neg: "1 - d / r < 0" by simp
  have "(1 - d / r) ^ 3 = (1 - d / r) * (1 - d / r) ^ 2"
    by (simp add: power3_eq_cube power2_eq_square)
  moreover have "0 < (1 - d / r) ^ 2"
    using neg zero_less_power2 [of "1 - d / r"] by linarith
  ultimately have "(1 - d / r) ^ 3 < 0"
    using neg by (simp add: mult_neg_pos)
  then show ?thesis by simp
qed

text \<open>
  Claim C10. For a radius \<open>r > 0\<close> and a distance \<open>d > r\<close>, the windows hamming,
  blackman, flat\_top, nuttall, blackman\_harris and lanczos are exactly 0, while parzen and
  parzen\_swot return \<open>2 * (1 - d/r)^3\<close>, which is negative (so not 0) there.
\<close>

theorem window_outside_radius:
  assumes "0 < r" and "r < d"
  shows "hamming d r = 0 \<and> blackman d r = 0 \<and> flat_top d r = 0 \<and> nuttall d r = 0
       \<and> blackman_harris d r = 0 \<and> lanczos sinc d r = 0
       \<and> parzen d r = 2 * (1 - d / r) ^ 3 \<and> parzen_swot d r = 2 * (1 - d / r) ^ 3
       \<and> parzen d r < 0 \<and> parzen_swot d r < 0"
  using assms parzen_outside [of r d] parzen_swot_outside [of r d] cube_negative [of r d]
  by (simp add: hamming_def blackman_def flat_top_def nuttall_def blackman_harris_def
      lanczos_def)

theorem window_outside_radius_witness:
  "(0::real) < 1 \<and> (1::real) < 2
   \<and> hamming 2 1 = 0 \<and> blackman 2 1 = 0 \<and> flat_top 2 1 = 0 \<and> nuttall 2 1 = 0
   \<and> blackman_harris 2 1 = 0 \<and> lanczos sin 2 1 = 0
   \<and> parzen 2 1 = - 2 \<and> parzen_swot 2 1 = - 2"
  using window_outside_radius [of 1 2 sin] by simp


section \<open>Outcomes, cells and counts\<close>

lemma and_then_None: "and_then (None, s) f = f s"
  by (simp add: and_then_def)

lemma and_then_Some: "and_then (Some e, s) f = (Some e, s)"
  by (simp add: and_then_def)

lemma absorb_frame: "rows (absorb cell v m) = rows m" "cols (absorb cell v m) = cols m"
  by (simp_all add: absorb_def)

lemma total_count_matrix: "total_count b = matrix_count (acc b)"
  unfolding total_count_def count_def calculate_statistics_def matrix_count_def
    accumulators_count_def
  by (simp add: comp_def interv_sum_list_conv_sum_set_nat sum.cartesian_product atLeast0LessThan)

lemma matrix_count_absorb:
  assumes "i < rows m" "j < cols m"
  shows "matrix_count (absorb (i, j) v m) = matrix_count m + 1"
proof -
  let ?S = "{..<rows m} \<times> {..<cols m}"
  have fin: "finite ?S" by simp
  have mem: "(i, j) \<in> ?S" using assms by simp
  have "matrix_count (absorb (i, j) v m)
        = (\<Sum>cell \<in> ?S. length (coeff (absorb (i, j) v m) cell))"
    by (simp add: matrix_count_def absorb_def)
  also have "\<dots> = length (coeff (absorb (i, j) v m) (i, j))
                  + (\<Sum>cell \<in> ?S - {(i, j)}. length (coeff (absorb (i, j) v m) cell))"
    using sum.remove [OF fin mem] by blast
  also have "(\<Sum>cell \<in> ?S - {(i, j)}. length (coeff (absorb (i, j) v m) cell))
             = (\<Sum>cell \<in> ?S - {(i, j)}. length (coeff m cell))"
    by (rule sum.cong) (auto simp: absorb_def)
  also have "length (coeff (absorb (i, j) v m) (i, j)) = length (coeff m (i, j)) + 1"
    by (simp add: absorb_def)
  finally have "matrix_count (absorb (i, j) v m)
        = 1 + (length (coeff m (i, j)) + (\<Sum>cell \<in> ?S - {(i, j)}. length (coeff m cell)))"
    by simp
  also have "length (coeff m (i, j)) + (\<Sum>cell \<in> ?S - {(i, j)}. length (coeff m cell))
             = (\<Sum>cell \<in> ?S. length (coeff m cell))"
    using sum.remove [OF fin mem, of "\<lambda>cell. length (coeff m cell)"] by simp
  finally show ?thesis by (simp add: matrix_count_def)
qed

lemma accumulate_in_range:
  assumes "0 \<le> ix" "ix < int (rows m)" "0 \<le> iy" "iy < int (cols m)"
  shows "accumulate ix iy v m = (None, absorb (nat ix, nat iy) v m)"
  using assms by (simp add: accumulate_def)


lemma contract_find_index:
  "axis_contract a \<Longrightarrow> find_index a v c \<noteq> - 1 \<Longrightarrow>
     0 \<le> find_index a v c \<and> find_index a v c < int (axis_size a)"
  unfolding axis_contract_def index_in_axis_def by blast

lemma contract_find_indexes:
  "axis_contract a \<Longrightarrow> find_indexes a v = Some (i0, i1) \<Longrightarrow>
     0 \<le> i0 \<and> i0 < int (axis_size a) \<and> 0 \<le> i1 \<and> i1 < int (axis_size a)"
  unfolding axis_contract_def index_in_axis_def by blast

lemma push_nearest_sample_effect:
  assumes "axis_contract xa" "axis_contract ya"
    and "rows m = axis_size xa" "cols m = axis_size ya"
  shows "\<exists>m'. push_nearest_sample xa ya s m = (None, m') \<and> rows m' = rows m \<and> cols m' = cols m
           \<and> matrix_count m' = matrix_count m + (if resolved_nearest xa ya s then 1 else 0)"
proof -
  obtain x y z where s: "s = (x, y, z)" by (cases s)
  show ?thesis
  proof (cases z)
    case NaN
    then show ?thesis by (simp add: s push_nearest_sample_def resolved_nearest_def)
  next
    case (Num v)
    show ?thesis
    proof (cases "find_index xa x True \<noteq> - 1 \<and> find_index ya y True \<noteq> - 1")
      case True
      have ix: "0 \<le> find_index xa x True \<and> find_index xa x True < int (rows m)"
        using contract_find_index [OF assms(1), of x True] True assms(3) by simp
      have iy: "0 \<le> find_index ya y True \<and> find_index ya y True < int (cols m)"
        using contract_find_index [OF assms(2), of y True] True assms(4) by simp
      have "push_nearest_sample xa ya s m
            = (None, absorb (nat (find_index xa x True), nat (find_index ya y True)) v m)"
        using True ix iy by (simp add: s Num push_nearest_sample_def Let_def accumulate_def)
      moreover have
        "matrix_count (absorb (nat (find_index xa x True), nat (find_index ya y True)) v m)
           = matrix_count m + 1"
        using ix iy by (intro matrix_count_absorb) auto
      moreover have "resolved_nearest xa ya s"
        using True by (simp add: s Num resolved_nearest_def)
      ultimately show ?thesis by (simp add: absorb_frame)
    next
      case False
      then have "push_nearest_sample xa ya s m = (None, m)"
        by (auto simp: s Num push_nearest_sample_def Let_def)
      moreover have "\<not> resolved_nearest xa ya s"
        using False by (simp add: s Num resolved_nearest_def)
      ultimately show ?thesis by simp
    qed
  qed
qed

lemma for_each_nearest_effect:
  assumes "axis_contract xa" "axis_contract ya"
  shows "rows m = axis_size xa \<Longrightarrow> cols m = axis_size ya \<Longrightarrow>
     \<exists>m'. for_each_sample (push_nearest_sample xa ya) ss m = (None, m')
        \<and> rows m' = rows m \<and> cols m' = cols m
        \<and> matrix_count m' = matrix_count m + length (filter (resolved_nearest xa ya) ss)"
proof (induction ss arbitrary: m)
  case Nil
  then show ?case by simp
next
  case (Cons s ss)
  obtain m1 where m1: "push_nearest_sample xa ya s m = (None, m1)"
      "rows m1 = rows m" "cols m1 = cols m"
      "matrix_count m1 = matrix_count m + (if resolved_nearest xa ya s then 1 else 0)"
    using push_nearest_sample_effect [OF assms Cons.prems, of s] by blast
  obtain m2 where m2: "for_each_sample (push_nearest_sample xa ya) ss m1 = (None, m2)"
      "rows m2 = rows m1" "cols m2 = cols m1"
      "matrix_count m2 = matrix_count m1 + length (filter (resolved_nearest xa ya) ss)"
    using Cons.IH [of m1] m1(2,3) Cons.prems by auto
  show ?case
    using m1 m2 by (simp add: and_then_None)
qed

lemma samples_array1:
  assumes "length xs = length ys" "length ys = length zs"
  shows "samples (array1 xs) (array1 ys) (array1 zs) = zip xs (zip ys zs)"
  using assms
  by (intro nth_equalityI) (simp_all add: samples_def array1_def array_size_def)

lemma checks_array1:
  assumes "length xs = length ys" "length ys = length zs"
  shows "check_array_ndim (array1 xs) 1 (array1 ys) 1 (array1 zs) 1 = None"
    and "check_ndarray_shape (array1 xs) (array1 ys) (array1 zs) = None"
  using assms by (simp_all add: check_array_ndim_def check_ndarray_shape_def ndim_def array1_def)

lemma push_simple_array1:
  assumes "length xs = length ys" "length ys = length zs"
  shows "push binning (array1 xs) (array1 ys) (array1 zs) True b
         = push_nearest (array1 xs) (array1 ys) (array1 zs) b"
  using checks_array1 [OF assms] by (simp add: push_def)


section \<open>The axis over a list of edges keeps the contract\<close>

lemma nearest_edge_range:
  "es \<noteq> [] \<Longrightarrow> 0 \<le> nearest_edge v es \<and> nearest_edge v es < int (length es)"
  by (induction v es rule: nearest_edge.induct) auto

lemma bracketing_range:
  "bracketing v es = Some (i0, i1) \<Longrightarrow> 0 \<le> i0 \<and> i1 = i0 + 1 \<and> i1 < int (length es)"
  by (induction v es arbitrary: i0 i1 rule: bracketing.induct)
     (auto split: if_splits option.splits)

lemma edges_axis_contract: "axis_contract (edges_axis edges angle)"
proof -
  have "find_index (edges_axis edges angle) v c = - 1
        \<or> index_in_axis (edges_axis edges angle) (find_index (edges_axis edges angle) v c)"
    for v c
    using nearest_edge_range [of edges]
    by (auto simp: edges_axis_def axis_find_index_def index_in_axis_def Let_def)
  moreover have "find_indexes (edges_axis edges angle) v = Some (i0, i1) \<Longrightarrow>
        index_in_axis (edges_axis edges angle) i0 \<and> index_in_axis (edges_axis edges angle) i1"
    for v i0 i1
    by (auto simp: edges_axis_def axis_find_indexes_def index_in_axis_def
        split: if_splits dest!: bracketing_range)
  ultimately show ?thesis
    unfolding axis_contract_def by blast
qed

lemmas scenario_defs = scenario_grid_def scenario_axis_def Binning2D_def Matrix_def edges_axis_def
  axis_find_index_def axis_find_indexes_def

lemmas push_defs = push_def check_array_ndim_def check_ndarray_shape_def ndim_def array1_def
  array_size_def samples_def push_nearest_def push_nearest_sample_def accumulate_def absorb_def
  and_then_def push_linear_def push_linear_sample_def sample_weights_def

lemmas query_defs = total_count_def count_def sum_stat_def mean_def calculate_statistics_def
  accumulators_count_def accumulators_sum_def accumulators_mean_def


lemma scenario_contract: "axis_contract scenario_axis"
  by (simp add: scenario_axis_def edges_axis_contract)

text \<open>
  With clamping the axis over a non-empty list of edges always finds an index: the first for
  a coordinate below the first edge, the last for one above the last edge.
\<close>

lemma edges_find_index_clamped:
  assumes "edges \<noteq> []"
  shows "find_index (edges_axis edges angle) v True \<noteq> - 1"
    and "(if angle then normalize_angle v (hd edges) 360 else v) < hd edges \<Longrightarrow>
           find_index (edges_axis edges angle) v True = 0"
    and "\<not> (if angle then normalize_angle v (hd edges) 360 else v) < hd edges \<Longrightarrow>
         last edges < (if angle then normalize_angle v (hd edges) 360 else v) \<Longrightarrow>
           find_index (edges_axis edges angle) v True = int (axis_size (edges_axis edges angle)) - 1"
proof -
  let ?c = "if angle then normalize_angle v (hd edges) 360 else v"
  have f: "find_index (edges_axis edges angle) v True
           = (if ?c < hd edges then 0
              else if last edges < ?c then int (length edges) - 1
              else nearest_edge ?c edges)"
    using assms by (simp add: edges_axis_def axis_find_index_def Let_def)
  have n: "0 \<le> nearest_edge ?c edges"
    using nearest_edge_range [OF assms, of ?c] by simp
  have l: "0 < int (length edges)"
    using assms by simp
  show "find_index (edges_axis edges angle) v True \<noteq> - 1"
    unfolding f using n l by (simp split: if_splits)
  show "?c < hd edges \<Longrightarrow> find_index (edges_axis edges angle) v True = 0"
    unfolding f by simp
  show "\<not> ?c < hd edges \<Longrightarrow> last edges < ?c \<Longrightarrow>
      find_index (edges_axis edges angle) v True = int (axis_size (edges_axis edges angle)) - 1"
    unfolding f by (simp add: edges_axis_def)
qed

lemma resolved_on_edges:
  assumes "ex \<noteq> []" "ey \<noteq> []"
  shows "resolved_nearest (edges_axis ex ax) (edges_axis ey ay) s = (\<not> isnan (snd (snd s)))"
  using edges_find_index_clamped(1) [OF assms(1)] edges_find_index_clamped(1) [OF assms(2)]
  by (cases s) (simp add: resolved_nearest_def)

lemma count_filter_zip3:
  assumes "length xs = length ys" "length ys = length zs"
  shows "length (filter (\<lambda>s. P (snd (snd s))) (zip xs (zip ys zs))) = length (filter P zs)"
proof -
  have "map (\<lambda>s. snd (snd s)) (zip xs (zip ys zs)) = zs"
    using assms by (intro nth_equalityI) simp_all
  then have "filter P zs = filter P (map (\<lambda>s. snd (snd s)) (zip xs (zip ys zs)))"
    by simp
  then show ?thesis
    by (simp add: filter_map comp_def)
qed

lemma push_nearest_sample_resolved:
  assumes "axis_contract xa" "axis_contract ya"
    and "rows m = axis_size xa" "cols m = axis_size ya"
    and "find_index xa x True \<noteq> - 1" "find_index ya y True \<noteq> - 1"
  shows "push_nearest_sample xa ya (x, y, Num v) m
         = (None, absorb (nat (find_index xa x True), nat (find_index ya y True)) v m)"
proof -
  have ix: "0 \<le> find_index xa x True \<and> find_index xa x True < int (rows m)"
    using contract_find_index [OF assms(1), of x True] assms(3,5) by simp
  have iy: "0 \<le> find_index ya y True \<and> find_index ya y True < int (cols m)"
    using contract_find_index [OF assms(2), of y True] assms(4,6) by simp
  show ?thesis
    using assms(5,6) ix iy by (simp add: push_nearest_sample_def Let_def accumulate_def)
qed

section \<open>Nearest mode: what the counts add up to\<close>

text \<open>
  Claim C1, as stated: in nearest mode the sum of \<open>count()\<close> over all cells equals the
  number of samples with a non-NaN \<open>z\<close> inside both axes' domains, a sample outside a
  domain being dropped. On the grid with edges \<open>[0, 1, 2]\<close> the single sample
  \<open>(5, 5, 1)\<close> lies outside both domains (the lookup without clamping finds no index),
  yet the call raises nothing and the sample is counted, in the edge cell \<open>(2, 2)\<close>: the sum of
  the counts is 1 and the number of samples inside the domains is 0.
\<close>

theorem push_nearest_clamps_counterexample:
  "find_index scenario_axis 5 False = - 1
   \<and> find_index scenario_axis 5 True = 2
   \<and> fst (push scenario_binning (array1 [5]) (array1 [5]) (array1 [Num 1]) True scenario_grid)
       = None
   \<and> count (snd (push scenario_binning (array1 [5]) (array1 [5]) (array1 [Num 1]) True
        scenario_grid)) = [[0, 0, 0], [0, 0, 0], [0, 0, 1]]
   \<and> total_count (snd (push scenario_binning (array1 [5]) (array1 [5]) (array1 [Num 1]) True
        scenario_grid)) = 1
   \<and> length (filter (inside_domains scenario_axis scenario_axis) [(5, 5, Num 1)]) = 0"
  by (simp add: scenario_defs push_defs query_defs inside_domains_def upt_rec)

text \<open>
  Claim C1, amended: in nearest mode, on axes that keep their contract, a push of three
  equal-length sequences raises nothing and adds to the sum of \<open>count()\<close> over all cells
  the number of samples whose \<open>z\<close> is not NaN and for which \<open>find_index\<close>, called with
  clamping, returns an index on both axes; such a sample is accumulated into the cell of the
  two indices. On the axis over a non-empty list of edges the clamped lookup always returns
  an index, the first one when the coordinate (wrapped into the period on an angular axis)
  is below the first edge and the last one when it is above the last edge; so there the sum
  grows by the number of samples whose \<open>z\<close> is not NaN: a sample outside an axis's
  domain is counted, in the edge cell, and not dropped.
\<close>

theorem push_nearest_count:
  assumes "axis_contract (x_axis b)" and "axis_contract (y_axis b)" and "shaped b"
    and "length xs = length ys" and "length ys = length zs"
  shows "fst (push binning (array1 xs) (array1 ys) (array1 zs) True b) = None
       \<and> total_count (snd (push binning (array1 xs) (array1 ys) (array1 zs) True b))
           = total_count b
             + length (filter (resolved_nearest (x_axis b) (y_axis b)) (zip xs (zip ys zs)))
       \<and> (find_index (x_axis b) x True \<noteq> - 1 \<and> find_index (y_axis b) y True \<noteq> - 1 \<longrightarrow>
            push_nearest_sample (x_axis b) (y_axis b) (x, y, Num v) (acc b)
              = (None, absorb (nat (find_index (x_axis b) x True),
                                nat (find_index (y_axis b) y True)) v (acc b)))
       \<and> (x_axis b = edges_axis ex ax \<and> y_axis b = edges_axis ey ay \<and> ex \<noteq> [] \<and> ey \<noteq> [] \<longrightarrow>
            total_count (snd (push binning (array1 xs) (array1 ys) (array1 zs) True b))
              = total_count b + length (filter (\<lambda>z. \<not> isnan z) zs)
            \<and> find_index (x_axis b) x True \<noteq> - 1 \<and> find_index (y_axis b) y True \<noteq> - 1
            \<and> ((if ax then normalize_angle x (hd ex) 360 else x) < hd ex \<longrightarrow>
                  find_index (x_axis b) x True = 0)
            \<and> (hd ex \<le> (if ax then normalize_angle x (hd ex) 360 else x)
                 \<and> last ex < (if ax then normalize_angle x (hd ex) 360 else x) \<longrightarrow>
                  find_index (x_axis b) x True = int (axis_size (x_axis b)) - 1)
            \<and> ((if ay then normalize_angle y (hd ey) 360 else y) < hd ey \<longrightarrow>
                  find_index (y_axis b) y True = 0)
            \<and> (hd ey \<le> (if ay then normalize_angle y (hd ey) 360 else y)
                 \<and> last ey < (if ay then normalize_angle y (hd ey) 360 else y) \<longrightarrow>
                  find_index (y_axis b) y True = int (axis_size (y_axis b)) - 1))"
proof -
  have shape: "rows (acc b) = axis_size (x_axis b)" "cols (acc b) = axis_size (y_axis b)"
    using assms(3) by (simp_all add: shaped_def)
  obtain m' where m': "for_each_sample (push_nearest_sample (x_axis b) (y_axis b))
        (zip xs (zip ys zs)) (acc b) = (None, m')"
      "matrix_count m' = matrix_count (acc b)
         + length (filter (resolved_nearest (x_axis b) (y_axis b)) (zip xs (zip ys zs)))"
    using for_each_nearest_effect [OF assms(1,2) shape] by blast
  have p: "push binning (array1 xs) (array1 ys) (array1 zs) True b = (None, b\<lparr>acc := m'\<rparr>)"
    using m'(1)
    by (simp add: push_simple_array1 [OF assms(4,5)] push_nearest_def
        samples_array1 [OF assms(4,5)])
  have raised: "fst (push binning (array1 xs) (array1 ys) (array1 zs) True b) = None"
    by (simp add: p)
  have total: "total_count (snd (push binning (array1 xs) (array1 ys) (array1 zs) True b))
      = total_count b
        + length (filter (resolved_nearest (x_axis b) (y_axis b)) (zip xs (zip ys zs)))"
    using m'(2) by (simp add: p total_count_matrix)
  have cell: "find_index (x_axis b) x True \<noteq> - 1 \<and> find_index (y_axis b) y True \<noteq> - 1 \<longrightarrow>
      push_nearest_sample (x_axis b) (y_axis b) (x, y, Num v) (acc b)
        = (None, absorb (nat (find_index (x_axis b) x True),
                          nat (find_index (y_axis b) y True)) v (acc b))"
    using push_nearest_sample_resolved [OF assms(1,2) shape] by blast
  have edges: "total_count (snd (push binning (array1 xs) (array1 ys) (array1 zs) True b))
              = total_count b + length (filter (\<lambda>z. \<not> isnan z) zs)
            \<and> find_index (x_axis b) x True \<noteq> - 1 \<and> find_index (y_axis b) y True \<noteq> - 1
            \<and> ((if ax then normalize_angle x (hd ex) 360 else x) < hd ex \<longrightarrow>
                  find_index (x_axis b) x True = 0)
            \<and> (hd ex \<le> (if ax then normalize_angle x (hd ex) 360 else x)
                 \<and> last ex < (if ax then normalize_angle x (hd ex) 360 else x) \<longrightarrow>
                  find_index (x_axis b) x True = int (axis_size (x_axis b)) - 1)
            \<and> ((if ay then normalize_angle y (hd ey) 360 else y) < hd ey \<longrightarrow>
                  find_index (y_axis b) y True = 0)
            \<and> (hd ey \<le> (if ay then normalize_angle y (hd ey) 360 else y)
                 \<and> last ey < (if ay then normalize_angle y (hd ey) 360 else y) \<longrightarrow>
                  find_index (y_axis b) y True = int (axis_size (y_axis b)) - 1)"
    if h: "x_axis b = edges_axis ex ax \<and> y_axis b = edges_axis ey ay \<and> ex \<noteq> [] \<and> ey \<noteq> []"
  proof -
    have ex: "ex \<noteq> []" and ey: "ey \<noteq> []" using h by simp_all
    have xa: "x_axis b = edges_axis ex ax" and ya: "y_axis b = edges_axis ey ay"
      using h by simp_all
    have "filter (resolved_nearest (x_axis b) (y_axis b)) (zip xs (zip ys zs))
          = filter (\<lambda>s. \<not> isnan (snd (snd s))) (zip xs (zip ys zs))"
      unfolding xa ya using resolved_on_edges [OF ex ey] by (intro filter_cong) auto
    then have n: "length (filter (resolved_nearest (x_axis b) (y_axis b)) (zip xs (zip ys zs)))
          = length (filter (\<lambda>z. \<not> isnan z) zs)"
      using count_filter_zip3 [OF assms(4,5), of "\<lambda>z. \<not> isnan z"] by simp
    show ?thesis
      unfolding xa ya
      using total n edges_find_index_clamped [OF ex, of ax x]
        edges_find_index_clamped [OF ey, of ay y]
      unfolding xa ya by auto
  qed
  show ?thesis
    using raised total cell edges by blast
qed

theorem push_nearest_count_witness:
  "axis_contract (x_axis scenario_grid) \<and> axis_contract (y_axis scenario_grid)
   \<and> shaped scenario_grid
   \<and> x_axis scenario_grid = edges_axis [0, 1, 2] False
   \<and> y_axis scenario_grid = edges_axis [0, 1, 2] False
   \<and> fst (push scenario_binning (array1 [0.4, 5]) (array1 [0.4, 5]) (array1 [Num 7, Num 1]) True
        scenario_grid) = None
   \<and> total_count (snd (push scenario_binning (array1 [0.4, 5]) (array1 [0.4, 5])
        (array1 [Num 7, Num 1]) True scenario_grid)) = 2
   \<and> find_index (x_axis scenario_grid) 5 True = 2
   \<and> find_index (y_axis scenario_grid) 5 True = 2
   \<and> push_nearest_sample (x_axis scenario_grid) (y_axis scenario_grid) (5, 5, Num 1)
        (acc scenario_grid)
       = (None, absorb (2, 2) 1 (acc scenario_grid))"
proof -
  have c: "axis_contract (x_axis scenario_grid)" "axis_contract (y_axis scenario_grid)"
    using scenario_contract by (simp_all add: scenario_grid_def Binning2D_def)
  have s: "shaped scenario_grid"
    by (simp add: shaped_def scenario_grid_def Binning2D_def Matrix_def)
  have l: "length [0.4, 5 :: real] = length [0.4, 5 :: real]"
    "length [0.4, 5 :: real] = length [Num 7, Num 1]"
    by simp_all
  have a: "x_axis scenario_grid = edges_axis [0, 1, 2] False"
    "y_axis scenario_grid = edges_axis [0, 1, 2] False"
    by (simp_all add: scenario_grid_def scenario_axis_def Binning2D_def)
  have t: "total_count scenario_grid = 0"
    by (simp add: scenario_defs query_defs upt_rec)
  have n: "length (filter (\<lambda>z. \<not> isnan z) [Num 7, Num 1]) = 2"
    by simp
  have e: "axis_size (x_axis scenario_grid) = 3" "axis_size (y_axis scenario_grid) = 3"
    by (simp_all add: a edges_axis_def)
  have o: "hd [0, 1, 2 :: real] \<le> (if False then normalize_angle 5 (hd [0, 1, 2]) 360 else 5)
      \<and> last [0, 1, 2 :: real] < (if False then normalize_angle 5 (hd [0, 1, 2]) 360 else 5)"
    by simp
  note th = push_nearest_count [OF c s l, of scenario_binning 5 5 1 "[0, 1, 2]" False
      "[0, 1, 2]" False]
  have i: "find_index (x_axis scenario_grid) 5 True = 2"
    "find_index (y_axis scenario_grid) 5 True = 2"
    using th a o e by simp_all
  have "push_nearest_sample (x_axis scenario_grid) (y_axis scenario_grid) (5, 5, Num 1)
        (acc scenario_grid)
       = (None, absorb (nat 2, nat 2) 1 (acc scenario_grid))"
    using th i by simp
  moreover have "total_count (snd (push scenario_binning (array1 [0.4, 5]) (array1 [0.4, 5])
        (array1 [Num 7, Num 1]) True scenario_grid)) = 2"
    using th a t n by simp
  moreover have "fst (push scenario_binning (array1 [0.4, 5]) (array1 [0.4, 5])
      (array1 [Num 7, Num 1]) True scenario_grid) = None"
    using th by blast
  ultimately show ?thesis
    using c s a i by simp
qed

section \<open>Linear mode: a sample is applied to four cells or to none\<close>

text \<open>
  Claim C5. In linear mode a sample is processed all or nothing: when its \<open>z\<close> is NaN or
  \<open>find_indexes\<close> of either axis reports none, the matrix is left as it was; otherwise
  the outcome is the matrix after exactly four accumulations, one per corner of the cell,
  the corner receiving the value times its weight, and the number of absorbed values grows
  by four. No outcome has only some of the four contributions.
\<close>

theorem push_linear_all_or_nothing:
  assumes "axis_contract xa" and "axis_contract ya"
    and "rows m = axis_size xa" and "cols m = axis_size ya"
  shows "(isnan z \<or> find_indexes xa x = None \<or> find_indexes ya y = None \<longrightarrow>
            push_linear_sample bw xa ya (x, y, z) m = (None, m))
       \<and> (z = Num v \<and> find_indexes xa x = Some (ix0, ix1) \<and> find_indexes ya y = Some (iy0, iy1)
            \<and> sample_weights bw xa ya x y (ix0, ix1) (iy0, iy1) = (w0, w1, w2, w3) \<longrightarrow>
            push_linear_sample bw xa ya (x, y, z) m
              = (None, absorb (nat ix1, nat iy1) (v * w3)
                         (absorb (nat ix1, nat iy0) (v * w2)
                           (absorb (nat ix0, nat iy1) (v * w1)
                             (absorb (nat ix0, nat iy0) (v * w0) m))))
            \<and> matrix_count (snd (push_linear_sample bw xa ya (x, y, z) m)) = matrix_count m + 4)"
proof (intro conjI impI)
  assume "isnan z \<or> find_indexes xa x = None \<or> find_indexes ya y = None"
  then show "push_linear_sample bw xa ya (x, y, z) m = (None, m)"
    by (cases z) (auto simp: push_linear_sample_def split: option.splits)
next
  assume h: "z = Num v \<and> find_indexes xa x = Some (ix0, ix1)
     \<and> find_indexes ya y = Some (iy0, iy1)
     \<and> sample_weights bw xa ya x y (ix0, ix1) (iy0, iy1) = (w0, w1, w2, w3)"
  have ix: "0 \<le> ix0" "ix0 < int (rows m)" "0 \<le> ix1" "ix1 < int (rows m)"
    using contract_find_indexes [OF assms(1), of x ix0 ix1] h assms(3) by simp_all
  have iy: "0 \<le> iy0" "iy0 < int (cols m)" "0 \<le> iy1" "iy1 < int (cols m)"
    using contract_find_indexes [OF assms(2), of y iy0 iy1] h assms(4) by simp_all
  let ?m1 = "absorb (nat ix0, nat iy0) (v * w0) m"
  let ?m2 = "absorb (nat ix0, nat iy1) (v * w1) ?m1"
  let ?m3 = "absorb (nat ix1, nat iy0) (v * w2) ?m2"
  let ?m4 = "absorb (nat ix1, nat iy1) (v * w3) ?m3"
  have a1: "accumulate ix0 iy0 (v * w0) m = (None, ?m1)"
    using ix iy by (simp add: accumulate_in_range)
  have a2: "accumulate ix0 iy1 (v * w1) ?m1 = (None, ?m2)"
    using ix iy by (simp add: accumulate_in_range absorb_frame)
  have a3: "accumulate ix1 iy0 (v * w2) ?m2 = (None, ?m3)"
    using ix iy by (simp add: accumulate_in_range absorb_frame)
  have a4: "accumulate ix1 iy1 (v * w3) ?m3 = (None, ?m4)"
    using ix iy by (simp add: accumulate_in_range absorb_frame)
  show res: "push_linear_sample bw xa ya (x, y, z) m = (None, ?m4)"
    using h by (simp add: push_linear_sample_def a1 a2 a3 a4 and_then_None)
  have c1: "matrix_count ?m1 = matrix_count m + 1"
    using ix iy by (intro matrix_count_absorb) auto
  have c2: "matrix_count ?m2 = matrix_count ?m1 + 1"
    using ix iy by (intro matrix_count_absorb) (auto simp: absorb_frame)
  have c3: "matrix_count ?m3 = matrix_count ?m2 + 1"
    using ix iy by (intro matrix_count_absorb) (auto simp: absorb_frame)
  have c4: "matrix_count ?m4 = matrix_count ?m3 + 1"
    using ix iy by (intro matrix_count_absorb) (auto simp: absorb_frame)
  show "matrix_count (snd (push_linear_sample bw xa ya (x, y, z) m)) = matrix_count m + 4"
    using c1 c2 c3 c4 by (simp add: res)
qed


theorem push_linear_all_or_nothing_witness:
  "axis_contract scenario_axis
   \<and> rows (Matrix 3 3) = axis_size scenario_axis \<and> cols (Matrix 3 3) = axis_size scenario_axis
   \<and> find_indexes scenario_axis 5 = None
   \<and> push_linear_sample binning_cartesian scenario_axis scenario_axis (5, 0.5, Num 10)
        (Matrix 3 3)
       = (None, Matrix 3 3)
   \<and> find_indexes scenario_axis 0.5 = Some (0, 1)
   \<and> sample_weights binning_cartesian scenario_axis scenario_axis 0.5 0.5 (0, 1) (0, 1)
       = (0.25, 0.25, 0.25, 0.25)
   \<and> push_linear_sample binning_cartesian scenario_axis scenario_axis (0.5, 0.5, Num 10)
        (Matrix 3 3)
       = (None, absorb (1, 1) 2.5 (absorb (1, 0) 2.5 (absorb (0, 1) 2.5
           (absorb (0, 0) 2.5 (Matrix 3 3)))))"
proof -
  have c: "axis_contract scenario_axis"
    by (rule scenario_contract)
  have s: "rows (Matrix 3 3) = axis_size scenario_axis"
    "cols (Matrix 3 3) = axis_size scenario_axis"
    by (simp_all add: Matrix_def scenario_axis_def edges_axis_def)
  have n: "find_indexes scenario_axis 5 = None"
    by (simp add: scenario_defs)
  have go: "Num 10 = Num 10 \<and> find_indexes scenario_axis 0.5 = Some (0, 1)
      \<and> find_indexes scenario_axis 0.5 = Some (0, 1)
      \<and> sample_weights binning_cartesian scenario_axis scenario_axis 0.5 0.5 (0, 1) (0, 1)
          = (0.25, 0.25, 0.25, 0.25)"
    by (simp add: scenario_defs sample_weights_def binning_cartesian_def)
  have "push_linear_sample binning_cartesian scenario_axis scenario_axis (5, 0.5, Num 10)
       (Matrix 3 3)
     = (None, Matrix 3 3)"
    using push_linear_all_or_nothing [OF c c s, of "Num 10" 5 "0.5" binning_cartesian] n
    by blast
  moreover have "push_linear_sample binning_cartesian scenario_axis scenario_axis
       (0.5, 0.5, Num 10) (Matrix 3 3)
     = (None, absorb (nat 1, nat 1) (10 * 0.25) (absorb (nat 1, nat 0) (10 * 0.25)
         (absorb (nat 0, nat 1) (10 * 0.25) (absorb (nat 0, nat 0) (10 * 0.25) (Matrix 3 3)))))"
    using push_linear_all_or_nothing [OF c c s, of "Num 10" "0.5" "0.5" binning_cartesian
        10 0 1 0 1 "0.25" "0.25" "0.25" "0.25"] go
    by blast
  ultimately show ?thesis
    using c s n go by simp
qed

section \<open>Linear mode: the concrete scenario\<close>

text \<open>
  Claim C4. On the grid with x-edges \<open>[0, 1, 2]\<close> and y-edges \<open>[0, 1, 2]\<close> without an
  ellipsoid, the sample \<open>(0.5, 0.5, 10)\<close> pushed in linear mode resolves to the cell of
  the indices \<open>(0, 1) \<times> (0, 1)\<close>, its four weights are all 0.25, each of the cells
  \<open>(0,0)\<close>, \<open>(0,1)\<close>, \<open>(1,0)\<close>, \<open>(1,1)\<close> ends with count 1, sum 2.5 and mean 2.5, and
  every other cell has count 0.
\<close>

theorem linear_scenario:
  "find_indexes scenario_axis 0.5 = Some (0, 1)
   \<and> sample_weights (binning_with geo cartesian) scenario_axis scenario_axis 0.5 0.5 (0, 1) (0, 1)
       = (0.25, 0.25, 0.25, 0.25)
   \<and> fst (push (binning_with geo) (array1 [0.5]) (array1 [0.5]) (array1 [Num 10]) False
        scenario_grid) = None
   \<and> count (snd (push (binning_with geo) (array1 [0.5]) (array1 [0.5]) (array1 [Num 10]) False
        scenario_grid)) = [[1, 1, 0], [1, 1, 0], [0, 0, 0]]
   \<and> sum_stat (snd (push (binning_with geo) (array1 [0.5]) (array1 [0.5]) (array1 [Num 10]) False
        scenario_grid)) = [[2.5, 2.5, 0], [2.5, 2.5, 0], [0, 0, 0]]
   \<and> map (take 2) (take 2 (mean (snd (push (binning_with geo) (array1 [0.5]) (array1 [0.5])
        (array1 [Num 10]) False scenario_grid))))
       = [[Num 2.5, Num 2.5], [Num 2.5, Num 2.5]]"
  by (simp add: scenario_defs push_defs query_defs binning_with_def binning_cartesian_def upt_rec)

section \<open>Linear mode: the angular axis\<close>

lemma normalize_angle_periodic:
  assumes "circle \<noteq> 0"
  shows "normalize_angle (x + circle * of_int k) r circle = normalize_angle x r circle"
proof -
  have "(x + circle * of_int k - r) / circle = (x - r) / circle + of_int k"
    using assms by (simp add: field_simps)
  then have "\<lfloor>(x + circle * of_int k - r) / circle\<rfloor> = \<lfloor>(x - r) / circle\<rfloor> + k"
    by simp
  then show ?thesis
    by (simp add: normalize_angle_def algebra_simps)
qed

lemma normalize_angle_range:
  assumes "0 < circle"
  shows "r \<le> normalize_angle x r circle \<and> normalize_angle x r circle < r + circle"
proof -
  let ?q = "(x - r) / circle"
  have q: "circle * ?q = x - r" using assms by simp
  have lo: "of_int \<lfloor>?q\<rfloor> \<le> ?q" and hi: "?q < of_int \<lfloor>?q\<rfloor> + 1" by linarith+
  have "circle * of_int \<lfloor>?q\<rfloor> \<le> circle * ?q"
    using lo assms by (intro mult_left_mono) simp_all
  moreover have "circle * ?q < circle * (of_int \<lfloor>?q\<rfloor> + 1)"
    using hi assms by (intro mult_strict_left_mono) simp_all
  ultimately have "circle * of_int \<lfloor>?q\<rfloor> \<le> x - r" "x - r < circle * of_int \<lfloor>?q\<rfloor> + circle"
    unfolding q by (simp_all add: algebra_simps)
  then show ?thesis
    by (simp add: normalize_angle_def)
qed


text \<open>
  Claim C6. In linear mode on an angular x-axis, the x coordinate handed to the weights is
  the sample's x normalized into the period of 360 that starts at the cell's lower corner
  \<open>x0\<close>; so two samples whose x differ by a multiple of 360 and that resolve to the same
  cell get the same four weights, and the same contributions.
\<close>

theorem angular_wrap_same_weights:
  assumes "is_angle xa" and "x' = x + 360 * of_int k"
    and "find_indexes xa x' = find_indexes xa x"
  shows "coordinate_value xa ix0 \<le> normalize_angle x (coordinate_value xa ix0) 360
       \<and> normalize_angle x (coordinate_value xa ix0) 360 < coordinate_value xa ix0 + 360
       \<and> sample_weights bw xa ya x y (ix0, ix1) (iy0, iy1)
           = bw (normalize_angle x (coordinate_value xa ix0) 360, y)
               (coordinate_value xa ix0, coordinate_value ya iy0)
               (coordinate_value xa ix1, coordinate_value ya iy1)
       \<and> normalize_angle x' (coordinate_value xa ix0) 360
           = normalize_angle x (coordinate_value xa ix0) 360
       \<and> sample_weights bw xa ya x' y (ix0, ix1) (iy0, iy1)
           = sample_weights bw xa ya x y (ix0, ix1) (iy0, iy1)
       \<and> push_linear_sample bw xa ya (x', y, z) m = push_linear_sample bw xa ya (x, y, z) m"
proof -
  have per: "normalize_angle x' r 360 = normalize_angle x r 360" for r
    using normalize_angle_periodic [of 360 x k r] assms(2) by simp
  have w: "sample_weights bw xa ya x' y xi yi = sample_weights bw xa ya x y xi yi" for xi yi
    by (cases xi; cases yi) (simp add: sample_weights_def per assms(1))
  have "push_linear_sample bw xa ya (x', y, z) m = push_linear_sample bw xa ya (x, y, z) m"
    by (simp add: push_linear_sample_def assms(3) w split: fp.splits option.splits)
  then show ?thesis
    using normalize_angle_range [of 360 "coordinate_value xa ix0" x] per w assms(1)
    by (simp add: sample_weights_def Let_def)
qed


lemma wrap_find_indexes:
  "find_indexes wrap_axis 359.9 = Some (3, 4)" "find_indexes wrap_axis (- 0.1) = Some (3, 4)"
  by (simp_all add: wrap_axis_def edges_axis_def axis_find_indexes_def normalize_angle_def)

theorem angular_wrap_same_weights_witness:
  "is_angle wrap_axis \<and> find_indexes wrap_axis 359.9 = Some (3, 4)
   \<and> find_indexes wrap_axis (- 0.1) = Some (3, 4)
   \<and> sample_weights binning_cartesian wrap_axis scenario_axis (- 0.1) 0.5 (3, 4) (0, 1)
       = sample_weights binning_cartesian wrap_axis scenario_axis 359.9 0.5 (3, 4) (0, 1)
   \<and> push_linear_sample binning_cartesian wrap_axis scenario_axis (- 0.1, 0.5, Num 10) (Matrix 5 3)
       = push_linear_sample binning_cartesian wrap_axis scenario_axis (359.9, 0.5, Num 10) (Matrix 5 3)"
proof -
  have a: "is_angle wrap_axis" by (simp add: wrap_axis_def edges_axis_def)
  have x: "(- 0.1 :: real) = 359.9 + 360 * of_int (- 1)" by simp
  have f: "find_indexes wrap_axis (- 0.1) = find_indexes wrap_axis 359.9"
    by (simp add: wrap_find_indexes)
  show ?thesis
    using angular_wrap_same_weights [OF a x f, of 3 binning_cartesian scenario_axis "0.5" 4 0 1
        "Num 10" "Matrix 5 3"] a
    by (simp add: wrap_find_indexes)
qed


section \<open>Linear mode: the planar weights\<close>










section \<open>push: the shape checks\<close>

text \<open>
  Claim C7. A push whose \<open>x\<close>, \<open>y\<close>, \<open>z\<close> are not all one-dimensional arrays of one
  shape fails with the shape-mismatch error before any accumulation: the object is left
  exactly as it was.
\<close>

theorem push_shape_mismatch:
  assumes "\<not> (ndim x = 1 \<and> ndim y = 1 \<and> ndim z = 1 \<and> shape x = shape y \<and> shape y = shape z)"
  shows "push binning x y z simple b = (Some ShapeMismatch, b)"
  using assms by (auto simp: push_def check_array_ndim_def check_ndarray_shape_def)


theorem push_shape_mismatch_witness:
  "shape (array1 [1, 2 :: real]) \<noteq> shape (array1 [1 :: real])
   \<and> push scenario_binning (array1 [1, 2]) (array1 [1]) (array1 [Num 1, Num 2]) True scenario_grid
     = (Some ShapeMismatch, scenario_grid)
   \<and> ndim \<lparr>shape = [1, 2], data = [1, 2 :: real]\<rparr> = 2
   \<and> push scenario_binning \<lparr>shape = [1, 2], data = [1, 2]\<rparr> \<lparr>shape = [1, 2], data = [1, 2]\<rparr>
       \<lparr>shape = [1, 2], data = [Num 1, Num 2]\<rparr> False scenario_grid
     = (Some ShapeMismatch, scenario_grid)"
proof -
  have a: "\<not> (ndim (array1 [1, 2 :: real]) = 1 \<and> ndim (array1 [1 :: real]) = 1
      \<and> ndim (array1 [Num 1, Num 2]) = 1
      \<and> shape (array1 [1, 2 :: real]) = shape (array1 [1 :: real])
      \<and> shape (array1 [1 :: real]) = shape (array1 [Num 1, Num 2]))"
    by (simp add: array1_def)
  have b: "\<not> (ndim \<lparr>shape = [1, 2], data = [1, 2 :: real]\<rparr> = 1
      \<and> ndim \<lparr>shape = [1, 2], data = [1, 2 :: real]\<rparr> = 1
      \<and> ndim \<lparr>shape = [1, 2], data = [Num 1, Num 2]\<rparr> = 1
      \<and> shape \<lparr>shape = [1, 2], data = [1, 2 :: real]\<rparr>
          = shape \<lparr>shape = [1, 2], data = [1, 2 :: real]\<rparr>
      \<and> shape \<lparr>shape = [1, 2], data = [1, 2 :: real]\<rparr>
          = shape \<lparr>shape = [1, 2], data = [Num 1, Num 2]\<rparr>)"
    by (simp add: ndim_def)
  show ?thesis
    using push_shape_mismatch [OF a, of scenario_binning True scenario_grid]
      push_shape_mismatch [OF b, of scenario_binning False scenario_grid]
    by (simp add: array1_def ndim_def)
qed

section \<open>push: one call or several\<close>

lemma push_array1:
  assumes "length xs = length ys" "length ys = length zs"
  shows "push binning (array1 xs) (array1 ys) (array1 zs) simple b
         = (case for_each_sample (push_body binning simple b) (zip xs (zip ys zs)) (acc b)
            of (e, m) \<Rightarrow> (e, b\<lparr>acc := m\<rparr>))"
  using checks_array1 [OF assms] samples_array1 [OF assms]
  by (simp add: push_def push_body_def push_nearest_def push_linear_def split: option.splits)

lemma push_body_acc: "push_body binning simple (b\<lparr>acc := m\<rparr>) = push_body binning simple b"
  by (simp add: push_body_def split: option.splits)

lemma for_each_sample_append:
  "for_each_sample body (ss @ ts) m
   = and_then (for_each_sample body ss m) (for_each_sample body ts)"
proof (induction ss arbitrary: m)
  case Nil
  then show ?case by (simp add: and_then_None)
next
  case (Cons s ss)
  show ?case
  proof (cases "body s m")
    case (Pair e m1)
    then show ?thesis
      using Cons.IH [of m1] by (cases e) (simp_all add: and_then_None and_then_Some)
  qed
qed

lemma push_append:
  assumes "length xs = length ys" "length ys = length zs"
    and "length xs' = length ys'" "length ys' = length zs'"
  shows "push binning (array1 (xs @ xs')) (array1 (ys @ ys')) (array1 (zs @ zs')) simple b
         = and_then (push binning (array1 xs) (array1 ys) (array1 zs) simple b)
             (push binning (array1 xs') (array1 ys') (array1 zs') simple)"
proof -
  have l: "length (xs @ xs') = length (ys @ ys')" "length (ys @ ys') = length (zs @ zs')"
    using assms by simp_all
  have z: "zip (xs @ xs') (zip (ys @ ys') (zs @ zs'))
           = zip xs (zip ys zs) @ zip xs' (zip ys' zs')"
    using assms by simp
  obtain e m1 where r1: "for_each_sample (push_body binning simple b) (zip xs (zip ys zs)) (acc b)
      = (e, m1)"
    by (cases "for_each_sample (push_body binning simple b) (zip xs (zip ys zs)) (acc b)")
  show ?thesis
  proof (cases e)
    case None
    then show ?thesis
      using r1
      by (simp add: push_array1 [OF l] push_array1 [OF assms(1,2)] push_array1 [OF assms(3,4)]
          z for_each_sample_append and_then_None push_body_acc)
  next
    case (Some err)
    then show ?thesis
      using r1
      by (simp add: push_array1 [OF l] push_array1 [OF assms(1,2)]
          z for_each_sample_append and_then_Some)
  qed
qed

lemma push_empty: "push binning (array1 []) (array1 []) (array1 []) simple b = (None, b)"
  using push_array1 [of "[]" "[]" "[]" binning simple b] by simp

lemma whole_well_shaped: "list_all well_shaped batches \<Longrightarrow> well_shaped (whole batches)"
  by (induction batches) (auto simp: whole_def well_shaped_def)

lemma push_batches_whole:
  "list_all well_shaped batches \<Longrightarrow>
   push_batches binning batches simple b
   = (case whole batches of (xs, ys, zs) \<Rightarrow>
        push binning (array1 xs) (array1 ys) (array1 zs) simple b)"
proof (induction batches arbitrary: b)
  case Nil
  then show ?case by (simp add: whole_def push_empty)
next
  case (Cons batch batches)
  obtain xs ys zs where batch: "batch = (xs, ys, zs)" by (cases batch)
  obtain xs' ys' zs' where rest: "whole batches = (xs', ys', zs')" by (cases "whole batches")
  have l: "length xs = length ys" "length ys = length zs"
    using Cons.prems by (simp_all add: batch well_shaped_def)
  have "list_all well_shaped batches"
    using Cons.prems by simp
  then have "well_shaped (xs', ys', zs')"
    using whole_well_shaped [of batches] rest by simp
  then have l': "length xs' = length ys'" "length ys' = length zs'"
    by (simp_all add: well_shaped_def)
  have w: "whole ((xs, ys, zs) # batches) = (xs @ xs', ys @ ys', zs @ zs')"
    using rest by (simp add: whole_def)
  have ih: "push_batches binning batches simple
            = push binning (array1 xs') (array1 ys') (array1 zs') simple"
    using Cons.IH \<open>list_all well_shaped batches\<close> rest by (intro ext) simp
  show ?case
    by (simp add: batch w ih push_append [OF l l'])
qed


text \<open>
  Claim C8. For a dataset and any split of it, in order, into consecutive batches, pushing
  the batches in successive calls leaves the object in the state one push of the whole
  dataset leaves it in (and raises what that push raises); so \<open>count\<close>, \<open>sum\<close>,
  \<open>mean\<close> and \<open>variance\<close> agree in every cell.
\<close>

theorem batch_split_invariance:
  assumes "list_all well_shaped batches" and "whole batches = (xs, ys, zs)"
  shows "push_batches binning batches simple b
           = push binning (array1 xs) (array1 ys) (array1 zs) simple b
       \<and> count (snd (push_batches binning batches simple b))
           = count (snd (push binning (array1 xs) (array1 ys) (array1 zs) simple b))
       \<and> sum_stat (snd (push_batches binning batches simple b))
           = sum_stat (snd (push binning (array1 xs) (array1 ys) (array1 zs) simple b))
       \<and> mean (snd (push_batches binning batches simple b))
           = mean (snd (push binning (array1 xs) (array1 ys) (array1 zs) simple b))
       \<and> variance (snd (push_batches binning batches simple b))
           = variance (snd (push binning (array1 xs) (array1 ys) (array1 zs) simple b))"
  using push_batches_whole [OF assms(1), of binning simple b] assms(2) by simp


theorem batch_split_invariance_witness:
  "list_all well_shaped [([0.4], [0.4], [Num 7]), ([0.5, 5], [0.5, 5], [Num 10, NaN])]
   \<and> whole [([0.4], [0.4], [Num 7]), ([0.5, 5], [0.5, 5], [Num 10, NaN])]
       = ([0.4, 0.5, 5], [0.4, 0.5, 5], [Num 7, Num 10, NaN])
   \<and> push_batches scenario_binning [([0.4], [0.4], [Num 7]), ([0.5, 5], [0.5, 5], [Num 10, NaN])]
       False scenario_grid
     = push scenario_binning (array1 [0.4, 0.5, 5]) (array1 [0.4, 0.5, 5])
         (array1 [Num 7, Num 10, NaN]) False scenario_grid
   \<and> mean (snd (push_batches scenario_binning
         [([0.4], [0.4], [Num 7]), ([0.5, 5], [0.5, 5], [Num 10, NaN])] False scenario_grid))
     = mean (snd (push scenario_binning (array1 [0.4, 0.5, 5]) (array1 [0.4, 0.5, 5])
         (array1 [Num 7, Num 10, NaN]) False scenario_grid))"
proof -
  have w: "list_all well_shaped [([0.4], [0.4], [Num 7]), ([0.5, 5], [0.5, 5], [Num 10, NaN])]"
    by (simp add: well_shaped_def)
  have d: "whole [([0.4], [0.4], [Num 7]), ([0.5, 5], [0.5, 5], [Num 10, NaN])]
           = ([0.4, 0.5, 5], [0.4, 0.5, 5], [Num 7, Num 10, NaN])"
    by (simp add: whole_def)
  show ?thesis
    using w d batch_split_invariance [OF w d, of scenario_binning False scenario_grid]
    by blast
qed

section \<open>clear\<close>

lemma push_frame:
  "x_axis (snd (push binning x y z simple b)) = x_axis b
   \<and> y_axis (snd (push binning x y z simple b)) = y_axis b
   \<and> wgs (snd (push binning x y z simple b)) = wgs b"
  by (simp add: push_def push_nearest_def push_linear_def split: option.splits prod.splits)

lemma apply_operation_frame:
  "x_axis (apply_operation binning b op) = x_axis b
   \<and> y_axis (apply_operation binning b op) = y_axis b
   \<and> wgs (apply_operation binning b op) = wgs b"
  by (cases op) (simp_all add: push_frame clear_def)

lemma run_frame:
  "x_axis (run binning ops b) = x_axis b \<and> y_axis (run binning ops b) = y_axis b
   \<and> wgs (run binning ops b) = wgs b"
  unfolding run_def
  by (induction ops arbitrary: b) (simp_all add: apply_operation_frame)

lemma calculate_statistics_Matrix:
  "acc b = Matrix r c \<Longrightarrow> calculate_statistics f b = replicate r (replicate c (f []))"
  by (simp add: calculate_statistics_def Matrix_def map_replicate_const)


text \<open>
  Claim C9. After any sequence of pushes and clears on a constructed object, \<open>clear()\<close>
  leaves it as the constructor made it: the two axes are the ones given at construction,
  \<open>count()\<close> is zero in every cell of the \<open>Nx\<close> by \<open>Ny\<close> array, and every
  statistic reads in every cell what it reads on an accumulator that absorbed nothing.
\<close>

theorem clear_resets:
  "clear (run binning ops (Binning2D x y w)) = Binning2D x y w
   \<and> x_axis (clear (run binning ops (Binning2D x y w))) = x
   \<and> y_axis (clear (run binning ops (Binning2D x y w))) = y
   \<and> count (clear (run binning ops (Binning2D x y w)))
       = replicate (axis_size x) (replicate (axis_size y) 0)
   \<and> calculate_statistics f (clear (run binning ops (Binning2D x y w)))
       = replicate (axis_size x) (replicate (axis_size y) (f []))"
proof -
  let ?b = "run binning ops (Binning2D x y w)"
  have fr: "x_axis ?b = x" "y_axis ?b = y" "wgs ?b = w"
    using run_frame [of binning ops "Binning2D x y w"] by (simp_all add: Binning2D_def)
  have eq: "clear ?b = Binning2D x y w"
    using fr by (cases ?b) (simp add: clear_def Binning2D_def)
  have a: "acc (Binning2D x y w) = Matrix (axis_size x) (axis_size y)"
    by (simp add: Binning2D_def)
  show ?thesis
    unfolding eq count_def
    by (simp add: calculate_statistics_Matrix [OF a] accumulators_count_def)
       (simp add: Binning2D_def)
qed


theorem clear_resets_witness:
  "count (clear (run scenario_binning
      [Push (array1 [0.4]) (array1 [0.4]) (array1 [Num 7]) True, Clear,
       Push (array1 [0.5]) (array1 [0.5]) (array1 [Num 10]) False] scenario_grid))
   = [[0, 0, 0], [0, 0, 0], [0, 0, 0]]"
proof -
  have "count (clear (run scenario_binning
      [Push (array1 [0.4]) (array1 [0.4]) (array1 [Num 7]) True, Clear,
       Push (array1 [0.5]) (array1 [0.5]) (array1 [Num 10]) False]
      (Binning2D scenario_axis scenario_axis None)))
    = replicate (axis_size scenario_axis) (replicate (axis_size scenario_axis) 0)"
    using clear_resets [of scenario_binning
      "[Push (array1 [0.4]) (array1 [0.4]) (array1 [Num 7]) True, Clear,
        Push (array1 [0.5]) (array1 [0.5]) (array1 [Num 10]) False]"
      scenario_axis scenario_axis None accumulators_count]
    by blast
  then show ?thesis
    by (simp add: scenario_grid_def scenario_axis_def edges_axis_def)
qed

end
